theory Spec2Isabelle
  imports Complex_Main
begin

section \<open>Python values used by the chat server\<close>

text \<open>
  The server (\<^verbatim>\<open>src/server.py\<close>) keeps one global list \<^verbatim>\<open>messages\<close> and answers
  HTTP requests in \<^verbatim>\<open>ChatHandler.do_GET\<close> and \<^verbatim>\<open>ChatHandler.do_POST\<close>. The model
  passes the list explicitly: a handler takes the list and returns what it sent (or the
  exception that left it) together with the list afterwards.

  Text is \<^typ>\<open>string\<close>; a character stands for the code point of the same number, so
  the model covers text whose code points are below 256.
\<close>

datatype py_error = ValueError | AttributeError | IndexError

text \<open>
  \<^verbatim>\<open>str.isspace\<close> on one character, for code points below 256: TAB, LF, VT, FF, CR,
  the separators FS, GS, RS, US, the space, NEL and the no-break space.
\<close>

definition isspace :: "char \<Rightarrow> bool" where
  "isspace c = (of_char c \<in> {9, 10, 11, 12, 13, 28, 29, 30, 31, 32, 133, 160 :: nat})"

text \<open>\<^verbatim>\<open>s.strip()\<close>: whitespace removed at both ends.\<close>

definition strip :: "string \<Rightarrow> string" where
  "strip s = rev (dropWhile isspace (rev (dropWhile isspace s)))"

definition isdigit :: "char \<Rightarrow> bool" where
  "isdigit c = (48 \<le> (of_char c :: nat) \<and> (of_char c :: nat) \<le> 57)"

definition digit_val :: "char \<Rightarrow> int" where
  "digit_val c = int (of_char c) - 48"

text \<open>
  The digits of a decimal literal as \<^verbatim>\<open>int\<close> reads them: a digit first and last, and
  single underscores only between two digits.
\<close>

fun digits_ok :: "string \<Rightarrow> bool" where
  "digits_ok [] = False"
| "digits_ok [c] = isdigit c"
| "digits_ok (c # d # r) =
     (isdigit c \<and> (if d = CHR ''_'' then digits_ok r else digits_ok (d # r)))"

definition digits_value :: "string \<Rightarrow> int" where
  "digits_value ds = foldl (\<lambda>acc c. 10 * acc + digit_val c) 0 (filter (\<lambda>c. c \<noteq> CHR ''_'') ds)"

text \<open>
  CPython's default bound on the number of digits \<^verbatim>\<open>int\<close> converts
  (\<^verbatim>\<open>sys.int_info.default_max_str_digits\<close>); a longer literal is a ValueError.
\<close>

definition int_max_str_digits :: nat where
  "int_max_str_digits = 4300"

text \<open>
  The whitespace \<^verbatim>\<open>int\<close> skips around a literal. It is not that of \<^verbatim>\<open>strip\<close>: the
  separators FS, GS, RS and US are not skipped.
\<close>

definition int_space :: "char \<Rightarrow> bool" where
  "int_space c = (of_char c \<in> {9, 10, 11, 12, 13, 32, 133, 160 :: nat})"

text \<open>
  \<^verbatim>\<open>int(s)\<close> for a string: surrounding whitespace is dropped, then an optional sign,
  then the digits. Anything else raises ValueError.
\<close>

definition py_int :: "string \<Rightarrow> py_error + int" where
  "py_int s =
     (let t = rev (dropWhile int_space (rev (dropWhile int_space s)));
          (neg, ds) = (case t of
                         [] \<Rightarrow> (False, [])
                       | c # r \<Rightarrow> if c = CHR ''-'' then (True, r)
                                 else if c = CHR ''+'' then (False, r)
                                 else (False, t))
      in if digits_ok ds \<and> length (filter (\<lambda>c. c \<noteq> CHR ''_'') ds) \<le> int_max_str_digits
         then Inr (if neg then - digits_value ds else digits_value ds)
         else Inl ValueError)"

text \<open>
  \<^verbatim>\<open>xs[i:]\<close>: a negative start counts from the end, and a start outside the list is
  clamped to it.
\<close>

definition slice_from :: "'a list \<Rightarrow> int \<Rightarrow> 'a list" where
  "slice_from xs i =
     (let n = int (length xs);
          start = (if i < 0 then max 0 (i + n) else min i n)
      in drop (nat start) xs)"

text \<open>
  What \<^verbatim>\<open>json.loads\<close> returns. An object is the list of the items of the dict it
  builds, so its keys are distinct.
\<close>

datatype json =
    JNull
  | JBool bool
  | JInt int
  | JFloat real
  | JStr string
  | JArr "json list"
  | JObj "(string \<times> json) list"

text \<open>\<^verbatim>\<open>d.get(k, default)\<close> on a dict given by its items.\<close>

definition dict_get :: "('k \<times> 'v) list \<Rightarrow> 'k \<Rightarrow> 'v \<Rightarrow> 'v" where
  "dict_get d k dflt = (case map_of d k of None \<Rightarrow> dflt | Some v \<Rightarrow> v)"

section \<open>The message store\<close>

text \<open>
  One entry of \<^verbatim>\<open>messages\<close>: the dict built at lines 74 to 79. The field
  \<^verbatim>\<open>id\<close> is \<open>msg_id\<close> here. The username is whatever JSON value the request
  carried; the message is a string, since \<^verbatim>\<open>strip\<close> was called on it.
\<close>

record chat_message =
  msg_id :: int
  username :: json
  message :: string
  timestamp :: string

type_synonym store = "chat_message list"

section \<open>Requests and responses\<close>

text \<open>
  The body of a POST as line 66 sees it: \<open>NotJSON\<close> when \<^verbatim>\<open>json.loads\<close> raises
  JSONDecodeError on the text read at lines 62 and 63, otherwise the value it returns.
  Reading that text (the Content-Length header, the bytes, their decoding) is the
  transport's part and is not modelled; nor is the line printed at line 84.
\<close>

datatype body = NotJSON | Parsed json

text \<open>
  A GET carries the path and the query of \<^verbatim>\<open>urlparse(self.path)\<close>, the query as the
  dict of \<^verbatim>\<open>parse_qs\<close> (each key with the list of its values). A POST carries
  \<^verbatim>\<open>self.path\<close> as it is, and the body.
\<close>

datatype request =
    GET string "(string \<times> string list) list"
  | POST string body

datatype payload =
    Html
  | Messages "chat_message list" int
  | Status int
  | Success chat_message
  | Error string

text \<open>
  What a handler does: it sends a response with a status code (\<^verbatim>\<open>_send_response\<close>,
  \<^verbatim>\<open>_send_html\<close>), or an exception leaves it and nothing is sent.
\<close>

datatype outcome = Response nat payload | Raises py_error

text \<open>
  Line 45: \<^verbatim>\<open>int(query_params.get('since', [0])[0])\<close>. The default is the integer 0,
  which \<^verbatim>\<open>int\<close> returns unchanged.
\<close>

definition since_index :: "(string \<times> string list) list \<Rightarrow> py_error + int" where
  "since_index query_params =
     (case map_of query_params ''since'' of
        None \<Rightarrow> Inr 0
      | Some [] \<Rightarrow> Inl IndexError
      | Some (v # _) \<Rightarrow> py_int v)"

definition do_GET :: "store \<Rightarrow> string \<Rightarrow> (string \<times> string list) list \<Rightarrow> outcome \<times> store" where
  "do_GET messages path query_params =
     (if path = ''/'' then (Response 200 Html, messages)
      else if path = ''/messages'' then
        (case since_index query_params of
           Inl e \<Rightarrow> (Raises e, messages)
         | Inr i \<Rightarrow>
             (let new_messages = slice_from messages i
              in (Response 200 (Messages new_messages (int (length messages))), messages)))
      else if path = ''/status'' then (Response 200 (Status (int (length messages))), messages)
      else (Response 404 (Error ''Not found''), messages))"

text \<open>
  \<^verbatim>\<open>do_POST\<close>; \<open>now\<close> is the text of \<^verbatim>\<open>datetime.now().strftime(...)\<close> at line 78.
  \<^verbatim>\<open>data.get\<close> exists on a dict only and \<^verbatim>\<open>message.strip\<close> on a string only; on any
  other value the attribute lookup raises AttributeError, which the \<^verbatim>\<open>except\<close> clause
  for JSONDecodeError does not catch.
\<close>

definition do_POST :: "string \<Rightarrow> store \<Rightarrow> string \<Rightarrow> body \<Rightarrow> outcome \<times> store" where
  "do_POST now messages path post_data =
     (if path = ''/send'' then
        (case post_data of
           NotJSON \<Rightarrow> (Response 400 (Error ''Invalid JSON''), messages)
         | Parsed (JObj data) \<Rightarrow>
             (let username = dict_get data ''username'' (JStr ''Anonymous'');
                  message = dict_get data ''message'' (JStr '''')
              in case message of
                   JStr text \<Rightarrow>
                     if strip text = [] then
                       (Response 400 (Error ''Message cannot be empty''), messages)
                     else
                       (let new_message = \<lparr>msg_id = int (length messages),
                                            username = username,
                                            message = text,
                                            timestamp = now\<rparr>
                        in (Response 200 (Success new_message), messages @ [new_message]))
                 | _ \<Rightarrow> (Raises AttributeError, messages))
         | Parsed _ \<Rightarrow> (Raises AttributeError, messages))
      else (Response 404 (Error ''Not found''), messages))"

fun handle :: "string \<Rightarrow> store \<Rightarrow> request \<Rightarrow> outcome \<times> store" where
  "handle now messages (GET path query_params) = do_GET messages path query_params"
| "handle now messages (POST path post_data) = do_POST now messages path post_data"

text \<open>
  \<^verbatim>\<open>run_server\<close> serves with \<^verbatim>\<open>HTTPServer\<close>, which handles one request after the
  other; an exception that leaves a handler is reported by the server and the next request
  is served. A run is the list of requests in the order they are handled, each with the
  clock's text at that moment, starting from some list of messages.
\<close>

fun serve :: "store \<Rightarrow> (string \<times> request) list \<Rightarrow> outcome list \<times> store" where
  "serve messages [] = ([], messages)"
| "serve messages ((now, r) # rs) =
     (let (out, messages') = handle now messages r;
          (outs, messages'') = serve messages' rs
      in (out # outs, messages''))"

text \<open>A POST that was accepted: status 200 with the created message.\<close>

fun accepted :: "outcome \<Rightarrow> bool" where
  "accepted (Response code (Success m)) = (code = 200)"
| "accepted _ = False"

text \<open>The invariant of the store: the ids are 0, 1, 2, ... in the order of the list.\<close>

definition store_inv :: "store \<Rightarrow> bool" where
  "store_inv ms = (map msg_id ms = map int [0..<length ms])"

section \<open>Evaluating the definitions\<close>

lemmas int_simps = since_index_def py_int_def int_space_def isdigit_def
  digits_value_def digit_val_def int_max_str_digits_def

lemmas post_simps = do_POST_def dict_get_def strip_def isspace_def Let_def

section \<open>Facts about the handlers\<close>

lemma dropWhile_all: "(\<forall>x \<in> set (dropWhile P xs). P x) \<longleftrightarrow> (\<forall>x \<in> set xs. P x)"
  by (induction xs) auto

lemma strip_Nil_iff: "strip s = [] \<longleftrightarrow> (\<forall>c \<in> set s. isspace c)"
  by (simp add: strip_def dropWhile_eq_Nil_conv dropWhile_all)

text \<open>The invariant, position by position: the message at position i has id i.\<close>

lemma store_inv_nth: "store_inv ms \<longleftrightarrow> (\<forall>i < length ms. msg_id (ms ! i) = int i)"
proof
  assume "store_inv ms"
  show "\<forall>i < length ms. msg_id (ms ! i) = int i"
  proof (intro allI impI)
    fix i assume i: "i < length ms"
    from \<open>store_inv ms\<close> have "map msg_id ms ! i = map int [0..<length ms] ! i"
      by (simp only: store_inv_def)
    with i show "msg_id (ms ! i) = int i" by simp
  qed
next
  assume "\<forall>i < length ms. msg_id (ms ! i) = int i"
  then show "store_inv ms"
    unfolding store_inv_def by (intro nth_equalityI) simp_all
qed

lemma do_GET_store: "snd (do_GET ms path q) = ms"
  by (simp add: do_GET_def Let_def split: sum.splits)

text \<open>
  A POST either is accepted, and then appends one message whose id is the length the
  list had, or leaves the list as it was.
\<close>

lemma do_POST_cases:
  "(\<exists>m. do_POST now ms path b = (Response 200 (Success m), ms @ [m]) \<and> msg_id m = int (length ms))
   \<or> (\<not> accepted (fst (do_POST now ms path b)) \<and> snd (do_POST now ms path b) = ms)"
  by (simp add: do_POST_def Let_def split: body.splits json.splits)

lemma handle_cases:
  "(\<exists>m. handle now ms r = (Response 200 (Success m), ms @ [m]) \<and> msg_id m = int (length ms))
   \<or> (\<not> accepted (fst (handle now ms r)) \<and> snd (handle now ms r) = ms)"
proof (cases r)
  case (GET path q)
  then show ?thesis by (simp add: do_GET_store) (simp add: do_GET_def Let_def split: sum.splits)
next
  case (POST path b)
  then show ?thesis using do_POST_cases [of now ms path b] by simp
qed

lemma store_inv_snoc: "store_inv ms \<Longrightarrow> msg_id m = int (length ms) \<Longrightarrow> store_inv (ms @ [m])"
  by (simp add: store_inv_def)

lemma handle_inv: "store_inv ms \<Longrightarrow> store_inv (snd (handle now ms r))"
  using handle_cases [of now ms r] by (auto simp: store_inv_snoc)

lemma handle_length:
  "length (snd (handle now ms r)) = length ms + (if accepted (fst (handle now ms r)) then 1 else 0)"
  using handle_cases [of now ms r] by auto

lemma serve_Cons:
  "serve ms ((now, r) # rs) =
     (fst (handle now ms r) # fst (serve (snd (handle now ms r)) rs),
      snd (serve (snd (handle now ms r)) rs))"
  by (simp add: split_beta)

lemma serve_inv: "store_inv ms \<Longrightarrow> store_inv (snd (serve ms rs))"
proof (induction rs arbitrary: ms)
  case Nil
  then show ?case by simp
next
  case (Cons a rs)
  obtain now r where a: "a = (now, r)" by (cases a)
  from Cons.prems have "store_inv (snd (handle now ms r))" by (rule handle_inv)
  then have "store_inv (snd (serve (snd (handle now ms r)) rs))" by (rule Cons.IH)
  then show ?case by (simp add: a serve_Cons del: serve.simps)
qed

lemma serve_length:
  "length (snd (serve ms rs)) = length ms + length (filter accepted (fst (serve ms rs)))"
proof (induction rs arbitrary: ms)
  case Nil
  then show ?case by simp
next
  case (Cons a rs)
  obtain now r where a: "a = (now, r)" by (cases a)
  show ?case
    using Cons.IH [of "snd (handle now ms r)"] handle_length [of now ms r]
    by (simp add: a serve_Cons del: serve.simps)
qed

lemma serve_outcomes: "length (fst (serve ms rs)) = length rs"
  by (induction rs arbitrary: ms) (auto simp: serve_Cons simp del: serve.simps(2))

subsection \<open>Slices of a store that satisfies the invariant\<close>

lemma slice_from_nonneg: "0 \<le> K \<Longrightarrow> slice_from ms K = drop (nat K) ms"
  by (cases "K \<le> int (length ms)") (simp_all add: slice_from_def Let_def min_def)

lemma slice_from_negative: "K < 0 \<Longrightarrow> slice_from ms K = drop (length ms - nat (- K)) ms"
proof -
  assume "K < 0"
  then have "nat (max 0 (K + int (length ms))) = length ms - nat (- K)" by arith
  with \<open>K < 0\<close> show ?thesis by (simp add: slice_from_def Let_def)
qed



section \<open>The claims\<close>

text \<open>
  C1. Serve any sequence of requests from the empty list of messages, one after the other.
  If N of them are accepted posts, the list ends with N messages, and the message at
  position i has id i. (A sequence of N accepted posts and nothing else is the case where
  every outcome is accepted.)
\<close>

theorem posts_number_the_store:
  "length (snd (serve [] rs)) = length (filter accepted (fst (serve [] rs)))
   \<and> (\<forall>i < length (snd (serve [] rs)). msg_id (snd (serve [] rs) ! i) = int i)"
proof
  show "length (snd (serve [] rs)) = length (filter accepted (fst (serve [] rs)))"
    using serve_length [of "[]" rs] by simp
  have "store_inv (snd (serve [] rs))"
    by (rule serve_inv) (simp add: store_inv_def)
  then show "\<forall>i < length (snd (serve [] rs)). msg_id (snd (serve [] rs) ! i) = int i"
    by (simp add: store_inv_nth)
qed

theorem posts_number_the_store_witness:
  "length (snd (serve []
      [(''2026-01-01 10:00:00'', POST ''/send'' (Parsed (JObj [(''username'', JStr ''alice''), (''message'', JStr ''hi'')]))),
       (''2026-01-01 10:00:01'', POST ''/send'' (Parsed (JObj [(''message'', JStr ''   '')]))),
       (''2026-01-01 10:00:02'', POST ''/send'' (Parsed (JObj [(''message'', JStr ''yo'')])))])) = 2
   \<and> msg_id (snd (serve []
      [(''2026-01-01 10:00:00'', POST ''/send'' (Parsed (JObj [(''username'', JStr ''alice''), (''message'', JStr ''hi'')]))),
       (''2026-01-01 10:00:01'', POST ''/send'' (Parsed (JObj [(''message'', JStr ''   '')]))),
       (''2026-01-01 10:00:02'', POST ''/send'' (Parsed (JObj [(''message'', JStr ''yo'')])))]) ! 1) = 1"
  using posts_number_the_store [of
      "[(''2026-01-01 10:00:00'', POST ''/send'' (Parsed (JObj [(''username'', JStr ''alice''), (''message'', JStr ''hi'')]))),
       (''2026-01-01 10:00:01'', POST ''/send'' (Parsed (JObj [(''message'', JStr ''   '')]))),
       (''2026-01-01 10:00:02'', POST ''/send'' (Parsed (JObj [(''message'', JStr ''yo'')])))]"]
  by (simp add: post_simps)



text \<open>
  C3. A post whose text is empty or all whitespace is answered 400 "Message cannot be
  empty"; nothing is appended, so the store and its length are unchanged.
\<close>

theorem blank_message_rejected:
  assumes "\<forall>c \<in> set text. isspace c" and "map_of data ''message'' = Some (JStr text)"
  shows "do_POST now ms ''/send'' (Parsed (JObj data))
         = (Response 400 (Error ''Message cannot be empty''), ms)"
proof -
  from assms(1) have "strip text = []" by (simp add: strip_Nil_iff)
  with assms(2) show ?thesis by (simp add: do_POST_def dict_get_def)
qed

theorem blank_message_rejected_witness:
  "do_POST ''2026-01-01 10:00:00'' [] ''/send'' (Parsed (JObj [(''message'', JStr ''   '')]))
   = (Response 400 (Error ''Message cannot be empty''), [])"
proof -
  have "\<forall>c \<in> set ''   ''. isspace c" by (simp add: isspace_def)
  moreover have "map_of [(''message'', JStr ''   '')] ''message'' = Some (JStr ''   '')" by simp
  ultimately show ?thesis by (rule blank_message_rejected)
qed

text \<open>
  C4, as claimed: the stored text is the input with surrounding whitespace removed. It is
  not: the text "  hi  " is accepted and stored with its spaces.
\<close>

theorem stored_text_not_trimmed_counterexample:
  "do_POST ''2026-01-01 10:00:00'' [] ''/send''
     (Parsed (JObj [(''username'', JStr ''alice''), (''message'', JStr ''  hi  '')]))
   = (Response 200 (Success \<lparr>msg_id = 0, username = JStr ''alice'', message = ''  hi  '',
                              timestamp = ''2026-01-01 10:00:00''\<rparr>),
      [\<lparr>msg_id = 0, username = JStr ''alice'', message = ''  hi  '',
         timestamp = ''2026-01-01 10:00:00''\<rparr>])
   \<and> strip ''  hi  '' = ''hi''
   \<and> ''  hi  '' \<noteq> strip ''  hi  ''"
  by (simp add: post_simps)

text \<open>
  C4, amended. For every accepted post, the text of the message that is stored and echoed
  is the input text exactly as it was sent; \<^verbatim>\<open>strip\<close> is used for the blank check
  only, so what is known of the stored text is that it is not blank.
\<close>

theorem post_stores_text_as_sent:
  assumes "do_POST now ms path (Parsed (JObj data)) = (Response 200 (Success m), ms')"
    and "map_of data ''message'' = Some (JStr text)"
  shows "message m = text \<and> ms' = ms @ [m] \<and> strip text \<noteq> []"
  using assms by (auto simp: do_POST_def dict_get_def Let_def split: if_splits)

theorem post_stores_text_as_sent_witness:
  "do_POST ''2026-01-01 10:00:00'' [] ''/send''
     (Parsed (JObj [(''username'', JStr ''alice''), (''message'', JStr ''  hi  '')]))
   = (Response 200 (Success \<lparr>msg_id = 0, username = JStr ''alice'', message = ''  hi  '',
                              timestamp = ''2026-01-01 10:00:00''\<rparr>),
      [\<lparr>msg_id = 0, username = JStr ''alice'', message = ''  hi  '',
         timestamp = ''2026-01-01 10:00:00''\<rparr>])
   \<and> message \<lparr>msg_id = 0, username = JStr ''alice'', message = ''  hi  '',
              timestamp = ''2026-01-01 10:00:00''\<rparr> = ''  hi  ''
   \<and> strip ''  hi  '' \<noteq> []"
proof -
  have p: "do_POST ''2026-01-01 10:00:00'' [] ''/send''
     (Parsed (JObj [(''username'', JStr ''alice''), (''message'', JStr ''  hi  '')]))
   = (Response 200 (Success \<lparr>msg_id = 0, username = JStr ''alice'', message = ''  hi  '',
                              timestamp = ''2026-01-01 10:00:00''\<rparr>),
      [\<lparr>msg_id = 0, username = JStr ''alice'', message = ''  hi  '',
         timestamp = ''2026-01-01 10:00:00''\<rparr>])"
    by (simp add: post_simps)
  have k: "map_of [(''username'', JStr ''alice''), (''message'', JStr ''  hi  '')] ''message''
     = Some (JStr ''  hi  '')" by simp
  from p post_stores_text_as_sent [OF p k] show ?thesis by blast
qed

text \<open>
  C5, as claimed: an empty or all-whitespace username becomes "Anonymous". It does not:
  the default applies to an absent key only, and a username of two spaces, or the empty
  one, is stored as it is.
\<close>

theorem blank_username_kept_counterexample:
  "do_POST ''2026-01-01 10:00:00'' [] ''/send''
     (Parsed (JObj [(''username'', JStr ''  ''), (''message'', JStr ''hi'')]))
   = (Response 200 (Success \<lparr>msg_id = 0, username = JStr ''  '', message = ''hi'',
                              timestamp = ''2026-01-01 10:00:00''\<rparr>),
      [\<lparr>msg_id = 0, username = JStr ''  '', message = ''hi'',
         timestamp = ''2026-01-01 10:00:00''\<rparr>])
   \<and> do_POST ''2026-01-01 10:00:00'' [] ''/send''
     (Parsed (JObj [(''username'', JStr ''''), (''message'', JStr ''hi'')]))
   = (Response 200 (Success \<lparr>msg_id = 0, username = JStr '''', message = ''hi'',
                              timestamp = ''2026-01-01 10:00:00''\<rparr>),
      [\<lparr>msg_id = 0, username = JStr '''', message = ''hi'',
         timestamp = ''2026-01-01 10:00:00''\<rparr>])
   \<and> JStr ''  '' \<noteq> JStr ''Anonymous'' \<and> JStr '''' \<noteq> JStr ''Anonymous''"
  by (simp add: post_simps)

text \<open>
  C5, amended. For every accepted post, the stored username is "Anonymous" when the
  request has no username key, and otherwise the supplied value unchanged, also when that
  value is empty or all whitespace.
\<close>

theorem post_username_default:
  assumes "do_POST now ms path (Parsed (JObj data)) = (Response 200 (Success m), ms')"
  shows "username m = (case map_of data ''username'' of None \<Rightarrow> JStr ''Anonymous'' | Some u \<Rightarrow> u)
         \<and> ms' = ms @ [m]"
  using assms by (auto simp: do_POST_def dict_get_def Let_def split: if_splits json.splits)

theorem post_username_default_witness:
  "do_POST ''2026-01-01 10:00:00'' [] ''/send'' (Parsed (JObj [(''message'', JStr ''hi'')]))
   = (Response 200 (Success \<lparr>msg_id = 0, username = JStr ''Anonymous'', message = ''hi'',
                              timestamp = ''2026-01-01 10:00:00''\<rparr>),
      [\<lparr>msg_id = 0, username = JStr ''Anonymous'', message = ''hi'',
         timestamp = ''2026-01-01 10:00:00''\<rparr>])
   \<and> username \<lparr>msg_id = 0, username = JStr ''Anonymous'', message = ''hi'',
               timestamp = ''2026-01-01 10:00:00''\<rparr> = JStr ''Anonymous''"
proof -
  have p: "do_POST ''2026-01-01 10:00:00'' [] ''/send'' (Parsed (JObj [(''message'', JStr ''hi'')]))
   = (Response 200 (Success \<lparr>msg_id = 0, username = JStr ''Anonymous'', message = ''hi'',
                              timestamp = ''2026-01-01 10:00:00''\<rparr>),
      [\<lparr>msg_id = 0, username = JStr ''Anonymous'', message = ''hi'',
         timestamp = ''2026-01-01 10:00:00''\<rparr>])"
    by (simp add: post_simps)
  from p post_username_default [OF p] show ?thesis by simp
qed

text \<open>
  C6, as claimed: a negative offset gives what offset 0 gives. It does not: the slice
  \<^verbatim>\<open>messages[-1:]\<close> of a store of two messages is the last message only.
\<close>

theorem negative_since_counterexample:
  "do_GET [\<lparr>msg_id = 0, username = JStr ''alice'', message = ''hi'', timestamp = ''2026-01-01 10:00:00''\<rparr>,
           \<lparr>msg_id = 1, username = JStr ''bob'', message = ''yo'', timestamp = ''2026-01-01 10:00:02''\<rparr>]
     ''/messages'' [(''since'', [''-1''])]
   = (Response 200 (Messages
        [\<lparr>msg_id = 1, username = JStr ''bob'', message = ''yo'', timestamp = ''2026-01-01 10:00:02''\<rparr>] 2),
      [\<lparr>msg_id = 0, username = JStr ''alice'', message = ''hi'', timestamp = ''2026-01-01 10:00:00''\<rparr>,
       \<lparr>msg_id = 1, username = JStr ''bob'', message = ''yo'', timestamp = ''2026-01-01 10:00:02''\<rparr>])
   \<and> do_GET [\<lparr>msg_id = 0, username = JStr ''alice'', message = ''hi'', timestamp = ''2026-01-01 10:00:00''\<rparr>,
           \<lparr>msg_id = 1, username = JStr ''bob'', message = ''yo'', timestamp = ''2026-01-01 10:00:02''\<rparr>]
     ''/messages'' [(''since'', [''0''])]
   = (Response 200 (Messages
        [\<lparr>msg_id = 0, username = JStr ''alice'', message = ''hi'', timestamp = ''2026-01-01 10:00:00''\<rparr>,
         \<lparr>msg_id = 1, username = JStr ''bob'', message = ''yo'', timestamp = ''2026-01-01 10:00:02''\<rparr>] 2),
      [\<lparr>msg_id = 0, username = JStr ''alice'', message = ''hi'', timestamp = ''2026-01-01 10:00:00''\<rparr>,
       \<lparr>msg_id = 1, username = JStr ''bob'', message = ''yo'', timestamp = ''2026-01-01 10:00:02''\<rparr>])
   \<and> do_GET [\<lparr>msg_id = 0, username = JStr ''alice'', message = ''hi'', timestamp = ''2026-01-01 10:00:00''\<rparr>,
           \<lparr>msg_id = 1, username = JStr ''bob'', message = ''yo'', timestamp = ''2026-01-01 10:00:02''\<rparr>]
     ''/messages'' [(''since'', [''-1''])]
   \<noteq> do_GET [\<lparr>msg_id = 0, username = JStr ''alice'', message = ''hi'', timestamp = ''2026-01-01 10:00:00''\<rparr>,
           \<lparr>msg_id = 1, username = JStr ''bob'', message = ''yo'', timestamp = ''2026-01-01 10:00:02''\<rparr>]
     ''/messages'' [(''since'', [''0''])]"
  by (simp add: do_GET_def slice_from_def int_simps)

text \<open>
  C6, amended. For every store of N messages and every negative offset K, the fetch answers
  200 with the last min(N, -K) messages and the total N, and leaves the store unchanged.
  That is what offset 0 gives exactly when N is at most -K.
\<close>

theorem fetch_since_negative:
  assumes "since_index q = Inr K" and "K < 0" and "since_index q0 = Inr 0"
  shows "do_GET ms ''/messages'' q =
           (Response 200 (Messages (drop (length ms - nat (- K)) ms) (int (length ms))), ms)
         \<and> length (drop (length ms - nat (- K)) ms) = min (length ms) (nat (- K))
         \<and> (do_GET ms ''/messages'' q = do_GET ms ''/messages'' q0 \<longleftrightarrow> int (length ms) \<le> - K)"
proof -
  have neg: "do_GET ms ''/messages'' q =
           (Response 200 (Messages (drop (length ms - nat (- K)) ms) (int (length ms))), ms)"
    using assms(1,2) by (simp add: do_GET_def slice_from_negative)
  have zero: "do_GET ms ''/messages'' q0 = (Response 200 (Messages ms (int (length ms))), ms)"
    using assms(3) by (simp add: do_GET_def slice_from_nonneg)
  have len: "length (drop (length ms - nat (- K)) ms) = min (length ms) (nat (- K))"
    by simp
  have "drop (length ms - nat (- K)) ms = ms \<longleftrightarrow> int (length ms) \<le> - K"
  proof
    assume "drop (length ms - nat (- K)) ms = ms"
    then have "length (drop (length ms - nat (- K)) ms) = length ms" by simp
    then have "length ms - (length ms - nat (- K)) = length ms" by simp
    with assms(2) show "int (length ms) \<le> - K" by arith
  next
    assume "int (length ms) \<le> - K"
    then have "length ms - nat (- K) = 0" by arith
    then show "drop (length ms - nat (- K)) ms = ms" by simp
  qed
  with neg zero len show ?thesis by simp
qed

theorem fetch_since_negative_witness:
  "since_index [(''since'', [''-1''])] = Inr (- 1)
   \<and> do_GET [\<lparr>msg_id = 0, username = JStr ''alice'', message = ''hi'', timestamp = ''2026-01-01 10:00:00''\<rparr>,
           \<lparr>msg_id = 1, username = JStr ''bob'', message = ''yo'', timestamp = ''2026-01-01 10:00:02''\<rparr>]
     ''/messages'' [(''since'', [''-1''])]
   = (Response 200 (Messages
        [\<lparr>msg_id = 1, username = JStr ''bob'', message = ''yo'', timestamp = ''2026-01-01 10:00:02''\<rparr>] 2),
      [\<lparr>msg_id = 0, username = JStr ''alice'', message = ''hi'', timestamp = ''2026-01-01 10:00:00''\<rparr>,
       \<lparr>msg_id = 1, username = JStr ''bob'', message = ''yo'', timestamp = ''2026-01-01 10:00:02''\<rparr>])"
proof -
  have k: "since_index [(''since'', [''-1''])] = Inr (- 1)" by (simp add: int_simps)
  have z: "since_index [] = Inr 0" by (simp add: since_index_def)
  show ?thesis using k fetch_since_negative [OF k _ z, of
    "[\<lparr>msg_id = 0, username = JStr ''alice'', message = ''hi'', timestamp = ''2026-01-01 10:00:00''\<rparr>,
           \<lparr>msg_id = 1, username = JStr ''bob'', message = ''yo'', timestamp = ''2026-01-01 10:00:02''\<rparr>]"]
    by simp
qed

text \<open>
  C7. The claim is that every request ends in a JSON response. Three requests where the
  handler is left by an exception instead, with nothing sent: a fetch whose since value is
  "abc" (ValueError from \<^verbatim>\<open>int\<close>, which \<^verbatim>\<open>do_GET\<close> does not catch), a post whose
  message is the number 5 and a post whose body is a JSON array (AttributeError, which the
  \<^verbatim>\<open>except\<close> clause for JSONDecodeError does not catch). A body that is not JSON is
  answered 400 "Invalid JSON", as claimed. The store is unchanged in all four.
\<close>

theorem malformed_requests_raise:
  "do_GET [] ''/messages'' [(''since'', [''abc''])] = (Raises ValueError, [])
   \<and> do_POST ''2026-01-01 10:00:00'' [] ''/send'' (Parsed (JObj [(''message'', JInt 5)]))
       = (Raises AttributeError, [])
   \<and> do_POST ''2026-01-01 10:00:00'' [] ''/send'' (Parsed (JArr [])) = (Raises AttributeError, [])
   \<and> do_POST ''2026-01-01 10:00:00'' [] ''/send'' NotJSON = (Response 400 (Error ''Invalid JSON''), [])"
  by (simp add: do_GET_def do_POST_def dict_get_def int_simps)

text \<open>
  C8. Two fetches with the same query, served one after the other at any two times with
  nothing between them, have the same outcome, and the store after them is the store
  before them; one fetch alone returns the store it was given.
\<close>

theorem fetch_twice:
  "serve ms [(t1, GET ''/messages'' q), (t2, GET ''/messages'' q)]
   = ([fst (do_GET ms ''/messages'' q), fst (do_GET ms ''/messages'' q)], ms)
   \<and> do_GET ms ''/messages'' q = (fst (do_GET ms ''/messages'' q), ms)"
  by (simp add: split_beta do_GET_store prod_eq_iff)




end
